theory Spec2Isabelle
  imports Main "HOL-Library.Word"
begin

section \<open>Filtering-log events\<close>

text \<open>
  The request-info modal of the filtering log (\<^verbatim>\<open>RequestInfo.tsx\<close>) reads one
  \<^verbatim>\<open>FilteringLogEvent\<close>. The record types come from
  \<^verbatim>\<open>background/api/filtering-log\<close>; only the fields that the functions below
  read are kept. An optional field (\<^verbatim>\<open>field?: T\<close>) is a value of type
  \<open>T option\<close>, with \<open>None\<close> for \<^verbatim>\<open>undefined\<close>.
\<close>

text \<open>
  Modelled from the spec: the declaration of \<^verbatim>\<open>FilteringEventRuleData\<close>, which
  the data model of the specification gives as
  \<^verbatim>\<open>{filterId, appliedRuleText, originalRuleText, allowlistRule, documentLevelRule,
  isStealthModeRule, cookieRule}\<close>, the two texts being strings that may be absent.
\<close>

record FilteringEventRuleData =
  filterId :: int
  appliedRuleText :: "string option"
  originalRuleText :: "string option"
  allowlistRule :: bool
  documentLevelRule :: bool
  isStealthModeRule :: bool
  cookieRule :: bool

text \<open>
  Modelled from the spec: the enumeration \<^verbatim>\<open>ContentType\<close> of the library
  \<^verbatim>\<open>tswebextension\<close> (imported as \<^verbatim>\<open>RequestType\<close>); the five members named
  by \<^verbatim>\<open>previewableTypes\<close> and one member for every other category.
\<close>

datatype RequestType = Image | Document | Subdocument | Script | Stylesheet | Other

record FilteringLogEvent =
  requestRule :: "FilteringEventRuleData option"
  replaceRules :: "FilteringEventRuleData list option"
  stealthAllowlistRules :: "FilteringEventRuleData list option"
  requestType :: "RequestType option"
  element :: "string option"
  script :: "bool option"
  cookieName :: "string option"

text \<open>
  The two reserved filter identifiers \<^verbatim>\<open>AntiBannerFiltersId.UserFilterId\<close> and
  \<^verbatim>\<open>AntiBannerFiltersId.AllowlistFilterId\<close> are constants of
  \<^verbatim>\<open>common/constants\<close>; every function that compares with them takes them as a
  parameter of this type.
\<close>

record AntiBannerFiltersId =
  UserFilterId :: int
  AllowlistFilterId :: int

subsection \<open>JavaScript truthiness\<close>

text \<open>
  A string is truthy when it is not empty, a missing value is falsy; an array or an
  object is truthy whenever it is there.
\<close>

fun truthy_string :: "string option \<Rightarrow> bool" where
  "truthy_string None = False"
| "truthy_string (Some s) = (s \<noteq> [])"

fun truthy_bool :: "bool option \<Rightarrow> bool" where
  "truthy_bool None = False"
| "truthy_bool (Some b) = b"

section \<open>Rule texts of an event: \<^verbatim>\<open>getRulesData\<close>\<close>

record RulesData =
  appliedRuleTexts :: "string list"
  originalRuleTexts :: "string list"

text \<open>
  The expression \<^verbatim>\<open>filterName ? `${text} (${filterName})` : text\<close>, which
  \<^verbatim>\<open>addRule\<close> evaluates for both texts. An empty filter name is falsy, as a
  missing one.
\<close>

definition withFilterName :: "string \<Rightarrow> string option \<Rightarrow> string" where
  "withFilterName ruleText filterName =
     (case filterName of
        None \<Rightarrow> ruleText
      | Some name \<Rightarrow> if name \<noteq> [] then ruleText @ '' ('' @ name @ '')'' else ruleText)"

text \<open>
  \<^verbatim>\<open>addRule\<close> pushes to the two arrays of the closure's \<^verbatim>\<open>result\<close>; here it
  takes the result and returns the updated one.
\<close>

definition addRule :: "RulesData \<Rightarrow> FilteringEventRuleData \<Rightarrow> string option \<Rightarrow> RulesData" where
  "addRule result rule filterName =
     (let result1 =
            (case appliedRuleText rule of
               None \<Rightarrow> result
             | Some applied \<Rightarrow>
                 if applied \<noteq> []
                 then result\<lparr>appliedRuleTexts :=
                        appliedRuleTexts result @ [withFilterName applied filterName]\<rparr>
                 else result)
      in (case originalRuleText rule of
            None \<Rightarrow> result1
          | Some original \<Rightarrow>
              if original \<noteq> []
              then result1\<lparr>originalRuleTexts :=
                     originalRuleTexts result1 @ [withFilterName original filterName]\<rparr>
              else result1))"

text \<open>
  \<^verbatim>\<open>addRuleGroup\<close>. The helper \<^verbatim>\<open>getFilterName\<close> of \<^verbatim>\<open>../utils\<close> is a
  parameter: it takes a filter identifier (possibly undefined) and the filters'
  metadata (possibly null) and returns a name or null. The metadata's element type
  \<^verbatim>\<open>FilterMetadata\<close> is the type variable \<open>'m\<close>. With exactly one rule, the rule is
  added with no filter name; otherwise \<^verbatim>\<open>forEach\<close> adds every rule in order, each
  with the name its filter resolves to (null when there is no metadata).
\<close>

definition addRuleGroup ::
  "(int option \<Rightarrow> 'm list option \<Rightarrow> string option) \<Rightarrow> 'm list option \<Rightarrow>
   RulesData \<Rightarrow> FilteringEventRuleData list option \<Rightarrow> RulesData" where
  "addRuleGroup getFilterName filtersMetadata result rules =
     (case rules of
        None \<Rightarrow> result
      | Some rs \<Rightarrow>
          (case rs of
             [rule] \<Rightarrow> addRule result rule None
           | _ \<Rightarrow>
               foldl (\<lambda>res rule.
                        addRule res rule
                          (case filtersMetadata of
                             Some metadata \<Rightarrow> getFilterName (Some (filterId rule)) (Some metadata)
                           | None \<Rightarrow> None))
                     result rs))"

definition emptyRulesData :: RulesData where
  "emptyRulesData = \<lparr>appliedRuleTexts = [], originalRuleTexts = []\<rparr>"

definition getRulesData ::
  "AntiBannerFiltersId \<Rightarrow> (int option \<Rightarrow> 'm list option \<Rightarrow> string option) \<Rightarrow>
   FilteringLogEvent \<Rightarrow> 'm list option \<Rightarrow> RulesData" where
  "getRulesData ids getFilterName event filtersMetadata =
     (let result = emptyRulesData in
      case replaceRules event of
        Some rules \<Rightarrow> addRuleGroup getFilterName filtersMetadata result (Some rules)
      | None \<Rightarrow>
          (case stealthAllowlistRules event of
             Some rules \<Rightarrow> addRuleGroup getFilterName filtersMetadata result (Some rules)
           | None \<Rightarrow>
               (case requestRule event of
                  None \<Rightarrow> result
                | Some rule \<Rightarrow>
                    if allowlistRule rule \<and> documentLevelRule rule
                       \<and> filterId rule = AllowlistFilterId ids
                    then result
                    else addRule result rule None)))"

text \<open>
  \<^verbatim>\<open>getRuleFilterName\<close>: the filter shown for the event. An index into an array is
  \<^verbatim>\<open>undefined\<close> out of range, and \<^verbatim>\<open>replaceRules[0]?.filterId\<close> is then
  \<^verbatim>\<open>undefined\<close> too; under the test \<^verbatim>\<open>length === 1\<close> the entry is there.
\<close>

definition getRuleFilterName ::
  "(int option \<Rightarrow> 'm list option \<Rightarrow> string option) \<Rightarrow>
   FilteringLogEvent \<Rightarrow> 'm list option \<Rightarrow> string option" where
  "getRuleFilterName getFilterName selectedEvent filtersMetadata =
     (case requestRule selectedEvent of
        Some rule \<Rightarrow> getFilterName (Some (filterId rule)) filtersMetadata
      | None \<Rightarrow>
          (case replaceRules selectedEvent of
             Some [rule] \<Rightarrow> getFilterName (Some (filterId rule)) filtersMetadata
           | _ \<Rightarrow>
               (case stealthAllowlistRules selectedEvent of
                  Some [rule] \<Rightarrow> getFilterName (Some (filterId rule)) filtersMetadata
                | _ \<Rightarrow> None)))"

section \<open>Control buttons of an event: \<^verbatim>\<open>renderControlButtons\<close>\<close>

text \<open>
  \<^verbatim>\<open>AddedRuleState\<close> of \<^verbatim>\<open>filtering-log/constants\<close> has the two members the
  component compares with; the wizard store's \<^verbatim>\<open>addedRuleState\<close> is one of them or
  null. \<^verbatim>\<open>StatusMode\<close> of \<^verbatim>\<open>filteringLogStatus\<close> has the two members that the
  component names, \<^verbatim>\<open>BLOCKED\<close> and \<^verbatim>\<open>ALLOWED\<close>, and here one member,
  \<open>REGULAR\<close>, for every other mode; the buttons read it only through the comparison
  with \<^verbatim>\<open>StatusMode.BLOCKED\<close>. \<^verbatim>\<open>getStatusMode\<close> itself is a parameter.
\<close>

datatype AddedRuleState = Block | Unblock

datatype StatusMode = BLOCKED | ALLOWED | REGULAR

record WizardStore =
  addedRuleState :: "AddedRuleState option"
  isActionSubmitted :: bool

text \<open>The click handlers are named, not run: a button carries the handler it would call.\<close>

datatype Handler =
    blockHandler
  | unblockHandler
  | removeFromAllowlistHandler
  | removeFromUserFilterHandler FilteringLogEvent
  | removeAddedRuleFromUserFilter
  | previewClickHandler

record ButtonProps =
  buttonTitleKey :: string
  onClick :: Handler
  className :: "string option"

datatype ButtonKey =
  BLOCK | UNBLOCK | ALLOWLIST | USER_FILTER
  | REMOVE_ADDED_BLOCK_RULE | REMOVE_ADDED_UNBLOCK_RULE | PREVIEW

fun BUTTON_MAP :: "FilteringLogEvent \<Rightarrow> ButtonKey \<Rightarrow> ButtonProps" where
  "BUTTON_MAP event BLOCK =
     \<lparr>buttonTitleKey = ''filtering_modal_block'', onClick = blockHandler,
      className = Some ''request-modal__button--red''\<rparr>"
| "BUTTON_MAP event UNBLOCK =
     \<lparr>buttonTitleKey = ''filtering_modal_unblock'', onClick = unblockHandler,
      className = None\<rparr>"
| "BUTTON_MAP event ALLOWLIST =
     \<lparr>buttonTitleKey = ''filtering_modal_remove_allowlist'',
      onClick = removeFromAllowlistHandler, className = None\<rparr>"
| "BUTTON_MAP event USER_FILTER =
     \<lparr>buttonTitleKey = ''filtering_modal_remove_user'',
      onClick = removeFromUserFilterHandler event, className = None\<rparr>"
| "BUTTON_MAP event REMOVE_ADDED_BLOCK_RULE =
     \<lparr>buttonTitleKey = ''filtering_modal_remove_user'',
      onClick = removeAddedRuleFromUserFilter, className = None\<rparr>"
| "BUTTON_MAP event REMOVE_ADDED_UNBLOCK_RULE =
     \<lparr>buttonTitleKey = ''filtering_modal_block_again'',
      onClick = removeAddedRuleFromUserFilter,
      className = Some ''request-modal__button--red''\<rparr>"
| "BUTTON_MAP event PREVIEW =
     \<lparr>buttonTitleKey = ''filtering_modal_preview_request_button'',
      onClick = previewClickHandler,
      className = Some ''request-modal__button--white''\<rparr>"

text \<open>
  The rendered \<^verbatim>\<open><button>\<close>. Its title is the translator's message for
  \<open>titleKey\<close>; the translator is outside the model, so the element keeps the key.
  \<^verbatim>\<open>cn\<close> joins the class names that are there with a space.
\<close>

record Button =
  disabled :: bool
  buttonClass :: string
  titleKey :: string
  onClickHandler :: Handler

definition renderButton :: "WizardStore \<Rightarrow> ButtonProps \<Rightarrow> Button" where
  "renderButton wizardStore props =
     \<lparr>disabled = isActionSubmitted wizardStore,
      buttonClass =
        (case className props of
           None \<Rightarrow> ''request-modal__button''
         | Some c \<Rightarrow> if c \<noteq> [] then ''request-modal__button'' @ '' '' @ c
                     else ''request-modal__button''),
      titleKey = buttonTitleKey props,
      onClickHandler = onClick props\<rparr>"

definition previewableTypes :: "RequestType list" where
  "previewableTypes = [Image, Document, Subdocument, Script, Stylesheet]"

definition showPreviewButton ::
  "(FilteringLogEvent \<Rightarrow> StatusMode) \<Rightarrow> FilteringLogEvent \<Rightarrow> bool" where
  "showPreviewButton getStatusMode event =
     ((case requestType event of
         None \<Rightarrow> False
       | Some t \<Rightarrow> t \<in> set previewableTypes)
      \<and> \<not> truthy_string (element event)
      \<and> \<not> truthy_bool (script event)
      \<and> \<not> truthy_string (cookieName event)
      \<and> \<not> (getStatusMode event = BLOCKED))"

text \<open>
  The component returns a fragment of buttons; the model returns them as a list, in
  the fragment's order. \<^verbatim>\<open>{showPreviewButton && renderButton(...)}\<close> renders
  nothing when the condition is false.
\<close>

definition renderControlButtons ::
  "AntiBannerFiltersId \<Rightarrow> (FilteringLogEvent \<Rightarrow> StatusMode) \<Rightarrow> WizardStore \<Rightarrow>
   FilteringLogEvent \<Rightarrow> Button list" where
  "renderControlButtons ids getStatusMode wizardStore event =
     (let preview =
            (if showPreviewButton getStatusMode event
             then [renderButton wizardStore (BUTTON_MAP event PREVIEW)] else [])
      in if addedRuleState wizardStore = Some Block
         then [renderButton wizardStore (BUTTON_MAP event REMOVE_ADDED_BLOCK_RULE)]
         else if addedRuleState wizardStore = Some Unblock
         then [renderButton wizardStore (BUTTON_MAP event REMOVE_ADDED_UNBLOCK_RULE)]
         else
           (case requestRule event of
              None \<Rightarrow> renderButton wizardStore (BUTTON_MAP event BLOCK) # preview
            | Some rule \<Rightarrow>
                if filterId rule = UserFilterId ids
                then
                  (let buttonProps =
                         (if isStealthModeRule rule then BUTTON_MAP event UNBLOCK
                          else BUTTON_MAP event USER_FILTER)
                   in if allowlistRule rule
                      then [renderButton wizardStore (BUTTON_MAP event BLOCK),
                            renderButton wizardStore buttonProps] @ preview
                      else renderButton wizardStore buttonProps # preview)
                else if filterId rule = AllowlistFilterId ids
                then renderButton wizardStore (BUTTON_MAP event ALLOWLIST) # preview
                else if \<not> allowlistRule rule
                then renderButton wizardStore (BUTTON_MAP event UNBLOCK) # preview
                else renderButton wizardStore (BUTTON_MAP event BLOCK) # preview))"

section \<open>The rule texts and the buttons with their failures\<close>

text \<open>
  The functions above are those of the source on an event of the declared type, with
  helpers that return. Here the same functions are written with what can fail in
  them. The source has no \<^verbatim>\<open>throw\<close> of its own; what raises is a read from null
  or undefined, a \<^verbatim>\<open>TypeError\<close>, and a helper that raises, whose exception
  nothing here catches.
\<close>

datatype error = TypeError | HelperError string

text \<open>
  The three fields that \<^verbatim>\<open>getRulesData\<close> reads, as they can be at run time: the
  declared type of a rule array says that every entry is a rule, and nothing checks
  it, so an entry is a rule or (\<open>None\<close>) null or undefined. \<open>runtimeEvent\<close> is an
  event of the declared type seen so.
\<close>

record RuntimeEvent =
  runtimeRequestRule :: "FilteringEventRuleData option"
  runtimeReplaceRules :: "FilteringEventRuleData option list option"
  runtimeStealthAllowlistRules :: "FilteringEventRuleData option list option"

definition runtimeEvent :: "FilteringLogEvent \<Rightarrow> RuntimeEvent" where
  "runtimeEvent event =
     \<lparr>runtimeRequestRule = requestRule event,
      runtimeReplaceRules = map_option (map Some) (replaceRules event),
      runtimeStealthAllowlistRules = map_option (map Some) (stealthAllowlistRules event)\<rparr>"

text \<open>
  \<^verbatim>\<open>addRule\<close> starts with \<^verbatim>\<open>const { appliedRuleText, originalRuleText } = rule\<close>,
  which raises when the rule is null or undefined; after it nothing can.
\<close>

definition addRule_raising ::
  "RulesData \<Rightarrow> FilteringEventRuleData option \<Rightarrow> string option \<Rightarrow> error + RulesData" where
  "addRule_raising result rule filterName =
     (case rule of
        None \<Rightarrow> Inl TypeError
      | Some r \<Rightarrow> Inr (addRule result r filterName))"

text \<open>
  The \<^verbatim>\<open>forEach\<close> of \<^verbatim>\<open>addRuleGroup\<close>. With metadata, the callback reads
  \<^verbatim>\<open>rule.filterId\<close>, which raises on a null entry, and calls \<^verbatim>\<open>getFilterName\<close>,
  which may raise; then it calls \<^verbatim>\<open>addRule\<close>. The first exception ends the loop
  and leaves the function.
\<close>

fun forEachRule_raising ::
  "(int option \<Rightarrow> 'm list option \<Rightarrow> error + string option) \<Rightarrow> 'm list option \<Rightarrow>
   RulesData \<Rightarrow> FilteringEventRuleData option list \<Rightarrow> error + RulesData" where
  "forEachRule_raising getFilterName filtersMetadata result [] = Inr result"
| "forEachRule_raising getFilterName filtersMetadata result (rule # rules) =
     (case (case filtersMetadata of
              Some metadata \<Rightarrow>
                (case rule of
                   None \<Rightarrow> Inl TypeError
                 | Some r \<Rightarrow> getFilterName (Some (filterId r)) (Some metadata))
            | None \<Rightarrow> Inr None) of
        Inl e \<Rightarrow> Inl e
      | Inr filterName \<Rightarrow>
          (case addRule_raising result rule filterName of
             Inl e \<Rightarrow> Inl e
           | Inr result1 \<Rightarrow> forEachRule_raising getFilterName filtersMetadata result1 rules))"

text \<open>
  \<^verbatim>\<open>rules.length === 1 && rules[0]\<close> holds for one entry that is a rule; a single
  null entry goes on to the loop.
\<close>

definition addRuleGroup_raising ::
  "(int option \<Rightarrow> 'm list option \<Rightarrow> error + string option) \<Rightarrow> 'm list option \<Rightarrow>
   RulesData \<Rightarrow> FilteringEventRuleData option list option \<Rightarrow> error + RulesData" where
  "addRuleGroup_raising getFilterName filtersMetadata result rules =
     (case rules of
        None \<Rightarrow> Inr result
      | Some rs \<Rightarrow>
          (case rs of
             [Some rule] \<Rightarrow> addRule_raising result (Some rule) None
           | _ \<Rightarrow> forEachRule_raising getFilterName filtersMetadata result rs))"

definition getRulesData_raising ::
  "AntiBannerFiltersId \<Rightarrow> (int option \<Rightarrow> 'm list option \<Rightarrow> error + string option) \<Rightarrow>
   RuntimeEvent \<Rightarrow> 'm list option \<Rightarrow> error + RulesData" where
  "getRulesData_raising ids getFilterName event filtersMetadata =
     (let result = emptyRulesData in
      case runtimeReplaceRules event of
        Some rules \<Rightarrow> addRuleGroup_raising getFilterName filtersMetadata result (Some rules)
      | None \<Rightarrow>
          (case runtimeStealthAllowlistRules event of
             Some rules \<Rightarrow>
               addRuleGroup_raising getFilterName filtersMetadata result (Some rules)
           | None \<Rightarrow>
               (case runtimeRequestRule event of
                  None \<Rightarrow> Inr result
                | Some rule \<Rightarrow>
                    if allowlistRule rule \<and> documentLevelRule rule
                       \<and> filterId rule = AllowlistFilterId ids
                    then Inr result
                    else addRule_raising result (Some rule) None)))"

text \<open>
  \<^verbatim>\<open>renderControlButtons\<close> reads no array and reads \<^verbatim>\<open>requestRule\<close> only after
  testing it; what can raise in it is \<^verbatim>\<open>getStatusMode\<close>, called (when the tests
  before it in the conjunction hold) for \<^verbatim>\<open>showPreviewButton\<close>, before the
  added-rule state is looked at.
\<close>

definition showPreviewButton_raising ::
  "(FilteringLogEvent \<Rightarrow> error + StatusMode) \<Rightarrow> FilteringLogEvent \<Rightarrow> error + bool" where
  "showPreviewButton_raising getStatusMode event =
     (if (case requestType event of
            None \<Rightarrow> False
          | Some t \<Rightarrow> t \<in> set previewableTypes)
         \<and> \<not> truthy_string (element event)
         \<and> \<not> truthy_bool (script event)
         \<and> \<not> truthy_string (cookieName event)
      then (case getStatusMode event of
              Inl e \<Rightarrow> Inl e
            | Inr mode \<Rightarrow> Inr (\<not> (mode = BLOCKED)))
      else Inr False)"

definition renderControlButtons_raising ::
  "AntiBannerFiltersId \<Rightarrow> (FilteringLogEvent \<Rightarrow> error + StatusMode) \<Rightarrow> WizardStore \<Rightarrow>
   FilteringLogEvent \<Rightarrow> error + Button list" where
  "renderControlButtons_raising ids getStatusMode wizardStore event =
     (case showPreviewButton_raising getStatusMode event of
        Inl e \<Rightarrow> Inl e
      | Inr showPreview \<Rightarrow>
          Inr
           (let preview =
                  (if showPreview
                   then [renderButton wizardStore (BUTTON_MAP event PREVIEW)] else [])
            in if addedRuleState wizardStore = Some Block
               then [renderButton wizardStore (BUTTON_MAP event REMOVE_ADDED_BLOCK_RULE)]
               else if addedRuleState wizardStore = Some Unblock
               then [renderButton wizardStore (BUTTON_MAP event REMOVE_ADDED_UNBLOCK_RULE)]
               else
                 (case requestRule event of
                    None \<Rightarrow> renderButton wizardStore (BUTTON_MAP event BLOCK) # preview
                  | Some rule \<Rightarrow>
                      if filterId rule = UserFilterId ids
                      then
                        (let buttonProps =
                               (if isStealthModeRule rule then BUTTON_MAP event UNBLOCK
                                else BUTTON_MAP event USER_FILTER)
                         in if allowlistRule rule
                            then [renderButton wizardStore (BUTTON_MAP event BLOCK),
                                  renderButton wizardStore buttonProps] @ preview
                            else renderButton wizardStore buttonProps # preview)
                      else if filterId rule = AllowlistFilterId ids
                      then renderButton wizardStore (BUTTON_MAP event ALLOWLIST) # preview
                      else if \<not> allowlistRule rule
                      then renderButton wizardStore (BUTTON_MAP event UNBLOCK) # preview
                      else renderButton wizardStore (BUTTON_MAP event BLOCK) # preview)))"

section \<open>The toolbar icon and badge: \<^verbatim>\<open>IconsApi.updateTabIcon\<close>\<close>

text \<open>
  The badge text may hold any UTF-16 code unit (the source writes the escape for
  U+221E, the infinity sign), which the 8-bit characters of \<open>string\<close> cannot; the
  badge is a list of 16-bit code units. Colours, paths and size keys stay
  \<open>string\<close>s.
\<close>

type_synonym jsstring = "16 word list"

text \<open>
  \<^verbatim>\<open>String(n)\<close> for an integral number: the decimal digits, after a minus sign
  for a negative one (numbers of magnitude \<open>10^21\<close> and more, which JavaScript prints
  with an exponent, NaN and fractions are outside the model of \<^verbatim>\<open>totalBlockedTab\<close>).
\<close>

fun decimal :: "nat \<Rightarrow> jsstring" where
  "decimal n =
     (if n < 10 then [of_nat (48 + n)]
      else decimal (n div 10) @ [of_nat (48 + n mod 10)])"

definition String_number :: "int \<Rightarrow> jsstring" where
  "String_number n = (if n < 0 then 45 # decimal (nat (- n)) else decimal (nat n))"

text \<open>
  The three fields of \<^verbatim>\<open>FrameData\<close> that the function takes from its argument:
  whether the website is allowlisted, whether filtering is disabled for the whole
  application, and the number of requests blocked in the tab.
\<close>

record FrameData =
  documentAllowlisted :: bool
  applicationFilteringDisabled :: bool
  totalBlockedTab :: int

type_synonym Icon = "(string \<times> string) list"

record NotificationIcons =
  ICON_GRAY :: "Icon option"
  ICON_GREEN :: "Icon option"

record Notification =
  badgeText :: "jsstring option"
  badgeBgColor :: "string option"
  icons :: "NotificationIcons option"

text \<open>A value thrown by an external call, or the reason of a rejected promise.\<close>

datatype Thrown = Thrown string

datatype BrowserActionApi = action | browserAction

text \<open>
  What the function reads from outside and what its calls answer: the setting
  \<^verbatim>\<open>DisableShowPageStats\<close>, \<^verbatim>\<open>RulesLimitsService.areFilterLimitsExceeded()\<close>,
  \<^verbatim>\<open>browser.runtime.getURL\<close>, the promise of
  \<^verbatim>\<open>promoNotificationApi.getCurrentNotification()\<close>, the build flag
  \<^verbatim>\<open>__IS_MV3__\<close>, the promise of \<^verbatim>\<open>getIconImageData\<close> (the image data's type is
  \<open>'i\<close>) and, for the three calls of the browser action, whether the promise rejects.
\<close>

record 'i IconsEnv =
  disableShowPageStats :: bool
  areFilterLimitsExceeded :: bool
  getURL :: "string \<Rightarrow> string"
  getCurrentNotification :: "Thrown + Notification option"
  IS_MV3 :: bool
  getIconImageData :: "Icon \<Rightarrow> Thrown + 'i"
  setIcon :: "BrowserActionApi \<Rightarrow> int \<Rightarrow> 'i \<Rightarrow> Thrown option"
  setBadgeText :: "BrowserActionApi \<Rightarrow> int \<Rightarrow> jsstring \<Rightarrow> Thrown option"
  setBadgeBackgroundColor :: "BrowserActionApi \<Rightarrow> int \<Rightarrow> string \<Rightarrow> Thrown option"

datatype 'i Call =
    SetIcon BrowserActionApi int 'i
  | SetBadgeText BrowserActionApi int jsstring
  | SetBadgeBackgroundColor BrowserActionApi int string
  | LoggerInfo Thrown

text \<open>
  The function returns nothing; the model returns the calls it made, in order, and
  the last values of its local variables \<^verbatim>\<open>icon\<close>, \<^verbatim>\<open>badge\<close> and
  \<^verbatim>\<open>badgeColor\<close>. A call whose promise rejects was made; the \<^verbatim>\<open>catch\<close> block
  then logs and the function ends. The variables with index 0 hold the values before
  the notification is read, those with index 1 the values after.
\<close>

record 'i IconUpdate =
  icon :: Icon
  badge :: jsstring
  badgeColor :: string
  calls :: "'i Call list"

text \<open>
  The end of the \<^verbatim>\<open>try\<close> block, from the choice of the browser action's
  namespace on: the calls made for the icon, the badge and the badge colour that
  were chosen before.
\<close>

definition browserActionCalls ::
  "'i IconsEnv \<Rightarrow> int \<Rightarrow> Icon \<Rightarrow> jsstring \<Rightarrow> string \<Rightarrow> 'i Call list" where
  "browserActionCalls env tabId icon1 badge1 badgeColor1 =
     (let api = (if IS_MV3 env then action else browserAction)
      in case getIconImageData env icon1 of
           Inl e \<Rightarrow> [LoggerInfo e]
         | Inr imageData \<Rightarrow>
             (case setIcon env api tabId imageData of
                Some e \<Rightarrow> [SetIcon api tabId imageData, LoggerInfo e]
              | None \<Rightarrow>
                  if badge1 \<noteq> []
                  then
                    (case setBadgeText env api tabId badge1 of
                       Some e \<Rightarrow>
                         [SetIcon api tabId imageData,
                          SetBadgeText api tabId badge1,
                          LoggerInfo e]
                     | None \<Rightarrow>
                         (case setBadgeBackgroundColor env api tabId badgeColor1 of
                            Some e \<Rightarrow>
                              [SetIcon api tabId imageData,
                               SetBadgeText api tabId badge1,
                               SetBadgeBackgroundColor api tabId badgeColor1,
                               LoggerInfo e]
                          | None \<Rightarrow>
                              [SetIcon api tabId imageData,
                               SetBadgeText api tabId badge1,
                               SetBadgeBackgroundColor api tabId badgeColor1]))
                  else [SetIcon api tabId imageData]))"

definition updateTabIcon :: "'i IconsEnv \<Rightarrow> int \<Rightarrow> FrameData \<Rightarrow> 'i IconUpdate" where
  "updateTabIcon env tabId frameData =
     (let badgeColor0 = ''#555'';
          disabled = (documentAllowlisted frameData \<or> applicationFilteringDisabled frameData);
          blocked =
            (if \<not> disabled \<and> \<not> disableShowPageStats env then totalBlockedTab frameData
             else 0);
          isWarning = areFilterLimitsExceeded env;
          icon0 =
            (if isWarning
             then [(''19'', getURL env ''assets/icons/warning-19.png''),
                   (''38'', getURL env ''assets/icons/warning-38.png'')]
             else if disabled
             then [(''19'', getURL env ''assets/icons/off-19.png''),
                   (''38'', getURL env ''assets/icons/off-38.png'')]
             else [(''19'', getURL env ''assets/icons/on-19.png''),
                   (''38'', getURL env ''assets/icons/on-38.png'')]);
          badge0 =
            (if blocked = 0 then []
             else if blocked > 99 then [0x221E]
             else String_number blocked)
      in case getCurrentNotification env of
           Inl e \<Rightarrow>
             \<lparr>icon = icon0, badge = badge0, badgeColor = badgeColor0, calls = [LoggerInfo e]\<rparr>
         | Inr notification \<Rightarrow>
             (let badge1 =
                    (case notification of
                       None \<Rightarrow> badge0
                     | Some n \<Rightarrow>
                         (case badgeText n of
                            None \<Rightarrow> badge0
                          | Some t \<Rightarrow> if t \<noteq> [] then t else badge0));
                  badgeColor1 =
                    (case notification of
                       None \<Rightarrow> badgeColor0
                     | Some n \<Rightarrow>
                         (case badgeBgColor n of
                            None \<Rightarrow> badgeColor0
                          | Some c \<Rightarrow> if c \<noteq> [] then c else badgeColor0));
                  icon1 =
                    (case notification of
                       None \<Rightarrow> icon0
                     | Some n \<Rightarrow>
                         (case icons n of
                            None \<Rightarrow> icon0
                          | Some is \<Rightarrow>
                              if disabled
                              then (case ICON_GRAY is of None \<Rightarrow> icon0 | Some g \<Rightarrow> g)
                              else (case ICON_GREEN is of None \<Rightarrow> icon0 | Some g \<Rightarrow> g)))
              in \<lparr>icon = icon1, badge = badge1, badgeColor = badgeColor1,
                  calls = browserActionCalls env tabId icon1 badge1 badgeColor1\<rparr>))"

section \<open>Concrete inputs\<close>

text \<open>
  Inputs on which the theorems below are instantiated. \<open>lookupFilterName\<close> is one
  function that the parameter \<open>getFilterName\<close> can be: a lookup in metadata given as
  pairs of a filter identifier and a name, null for an unknown identifier.
\<close>

definition exampleIds :: AntiBannerFiltersId where
  "exampleIds = \<lparr>UserFilterId = 0, AllowlistFilterId = 100\<rparr>"

definition lookupFilterName ::
  "int option \<Rightarrow> (int \<times> string) list option \<Rightarrow> string option" where
  "lookupFilterName fid filtersMetadata =
     (case fid of
        None \<Rightarrow> None
      | Some i \<Rightarrow>
          (case filtersMetadata of None \<Rightarrow> None | Some metadata \<Rightarrow> map_of metadata i))"

definition exampleMetadata :: "(int \<times> string) list" where
  "exampleMetadata = [(2, ''Base filter''), (3, ''Tracking Protection'')]"

definition blockingRule :: FilteringEventRuleData where
  "blockingRule =
     \<lparr>filterId = 2, appliedRuleText = Some ''||ads.example^'', originalRuleText = None,
      allowlistRule = False, documentLevelRule = False, isStealthModeRule = False,
      cookieRule = False\<rparr>"

definition convertedRule :: FilteringEventRuleData where
  "convertedRule =
     \<lparr>filterId = 3, appliedRuleText = Some ''||t.example^$replace=/a/b/'',
      originalRuleText = Some ''t.example$$replace'',
      allowlistRule = False, documentLevelRule = False, isStealthModeRule = False,
      cookieRule = False\<rparr>"

definition unknownFilterRule :: FilteringEventRuleData where
  "unknownFilterRule = blockingRule\<lparr>filterId := 7, appliedRuleText := Some ''||x.example^''\<rparr>"

definition textlessRule :: FilteringEventRuleData where
  "textlessRule = blockingRule\<lparr>appliedRuleText := None, originalRuleText := Some []\<rparr>"

definition allowlistDocumentRule :: FilteringEventRuleData where
  "allowlistDocumentRule =
     \<lparr>filterId = 100, appliedRuleText = Some ''@@//example.org^$document'',
      originalRuleText = None,
      allowlistRule = True, documentLevelRule = True, isStealthModeRule = False,
      cookieRule = False\<rparr>"

definition userAllowlistRule :: FilteringEventRuleData where
  "userAllowlistRule =
     \<lparr>filterId = 0, appliedRuleText = Some ''@@||cdn.example^'', originalRuleText = None,
      allowlistRule = True, documentLevelRule = False, isStealthModeRule = False,
      cookieRule = False\<rparr>"

definition noEvent :: FilteringLogEvent where
  "noEvent =
     \<lparr>requestRule = None, replaceRules = None, stealthAllowlistRules = None,
      requestType = None, element = None, script = None, cookieName = None\<rparr>"

definition blockedEvent :: FilteringLogEvent where
  "blockedEvent = noEvent\<lparr>requestRule := Some blockingRule\<rparr>"

definition emptyReplaceEvent :: FilteringLogEvent where
  "emptyReplaceEvent = noEvent\<lparr>requestRule := Some blockingRule, replaceRules := Some []\<rparr>"

definition allowlistedEvent :: FilteringLogEvent where
  "allowlistedEvent = noEvent\<lparr>requestRule := Some allowlistDocumentRule\<rparr>"

definition imageEvent :: FilteringLogEvent where
  "imageEvent = noEvent\<lparr>requestType := Some Image\<rparr>"

definition userAllowlistEvent :: FilteringLogEvent where
  "userAllowlistEvent = imageEvent\<lparr>requestRule := Some userAllowlistRule\<rparr>"

definition alwaysRegular :: "FilteringLogEvent \<Rightarrow> StatusMode" where
  "alwaysRegular event = REGULAR"

definition idleStore :: WizardStore where
  "idleStore = \<lparr>addedRuleState = None, isActionSubmitted = False\<rparr>"

text \<open>
  An environment for \<open>updateTabIcon\<close> with no promo notification, in which every
  promise resolves and the image data of an icon are the icon's paths.
\<close>

definition exampleEnv :: "Icon IconsEnv" where
  "exampleEnv =
     \<lparr>disableShowPageStats = False,
      areFilterLimitsExceeded = False,
      getURL = (\<lambda>path. ''chrome-extension://adguard/'' @ path),
      getCurrentNotification = Inr None,
      IS_MV3 = True,
      getIconImageData = (\<lambda>paths. Inr paths),
      setIcon = (\<lambda>api tab imageData. None),
      setBadgeText = (\<lambda>api tab text. None),
      setBadgeBackgroundColor = (\<lambda>api tab color. None)\<rparr>"

definition exampleFrame :: FrameData where
  "exampleFrame =
     \<lparr>documentAllowlisted = False, applicationFilteringDisabled = False,
      totalBlockedTab = 42\<rparr>"

section \<open>Properties of the rule texts\<close>

subsection \<open>The order in which the three rule groups are consulted\<close>

text \<open>
  Claim C1, as the code has it. The three groups are consulted in a fixed order and
  the test is whether the group is there, not whether it has entries:
  when \<open>replaceRules\<close> is defined (an empty array too), the result is that of
  \<open>addRuleGroup\<close> on it alone, whatever \<open>requestRule\<close> and \<open>stealthAllowlistRules\<close>
  hold; otherwise, when \<open>stealthAllowlistRules\<close> is defined, the result is that of
  \<open>addRuleGroup\<close> on it alone, whatever \<open>requestRule\<close> holds; otherwise the result
  comes from \<open>requestRule\<close> alone (nothing when it is missing, or when it is the
  document-level allowlist rule of the allowlist filter). No result mixes two groups.
\<close>

theorem getRulesData_precedence:
  "(replaceRules event = Some rs \<longrightarrow>
      getRulesData ids getFilterName event filtersMetadata
        = addRuleGroup getFilterName filtersMetadata emptyRulesData (Some rs)
      \<and> getRulesData ids getFilterName
            (event\<lparr>requestRule := r', stealthAllowlistRules := s'\<rparr>) filtersMetadata
          = getRulesData ids getFilterName event filtersMetadata)
   \<and> (replaceRules event = None \<and> stealthAllowlistRules event = Some rs \<longrightarrow>
      getRulesData ids getFilterName event filtersMetadata
        = addRuleGroup getFilterName filtersMetadata emptyRulesData (Some rs)
      \<and> getRulesData ids getFilterName (event\<lparr>requestRule := r'\<rparr>) filtersMetadata
          = getRulesData ids getFilterName event filtersMetadata)
   \<and> (replaceRules event = None \<and> stealthAllowlistRules event = None \<longrightarrow>
      getRulesData ids getFilterName event filtersMetadata
        = (case requestRule event of
             None \<Rightarrow> emptyRulesData
           | Some rule \<Rightarrow>
               if allowlistRule rule \<and> documentLevelRule rule
                  \<and> filterId rule = AllowlistFilterId ids
               then emptyRulesData
               else addRule emptyRulesData rule None))"
  by (simp add: getRulesData_def)

text \<open>
  The theorem at an event with both replace rules and a request rule: the two
  replace rules alone make the result, each text with its filter's name.
\<close>

theorem getRulesData_precedence_witness:
  "getRulesData exampleIds lookupFilterName
     (blockedEvent\<lparr>replaceRules := Some [convertedRule, blockingRule]\<rparr>)
     (Some exampleMetadata)
   = \<lparr>appliedRuleTexts = [''||t.example^$replace=/a/b/ (Tracking Protection)'',
                           ''||ads.example^ (Base filter)''],
      originalRuleTexts = [''t.example$$replace (Tracking Protection)'']\<rparr>"
proof -
  let ?event = "blockedEvent\<lparr>replaceRules := Some [convertedRule, blockingRule]\<rparr>"
  have present: "replaceRules ?event = Some [convertedRule, blockingRule]"
    by simp
  have "getRulesData exampleIds lookupFilterName ?event (Some exampleMetadata)
        = addRuleGroup lookupFilterName (Some exampleMetadata) emptyRulesData
            (Some [convertedRule, blockingRule])"
    using getRulesData_precedence
            [of ?event "[convertedRule, blockingRule]" exampleIds lookupFilterName
                "Some exampleMetadata"] present
    by blast
  also have "\<dots> = \<lparr>appliedRuleTexts = [''||t.example^$replace=/a/b/ (Tracking Protection)'',
                                       ''||ads.example^ (Base filter)''],
                  originalRuleTexts = [''t.example$$replace (Tracking Protection)'']\<rparr>"
    by (simp add: addRuleGroup_def addRule_def emptyRulesData_def withFilterName_def
          lookupFilterName_def exampleMetadata_def convertedRule_def blockingRule_def)
  finally show ?thesis .
qed

text \<open>
  Claim C1 as it is written fails where \<open>replaceRules\<close> is an empty array: the
  group is not non-empty and there are no stealth allowlist rules, so the claim has
  the request rule processed, which would give the text of \<open>blockingRule\<close>; the code
  returns at the first test with nothing.
\<close>

theorem getRulesData_nonempty_precedence_counterexample:
  "replaceRules emptyReplaceEvent = Some []
   \<and> stealthAllowlistRules emptyReplaceEvent = None
   \<and> requestRule emptyReplaceEvent = Some blockingRule
   \<and> addRule emptyRulesData blockingRule None
       = \<lparr>appliedRuleTexts = [''||ads.example^''], originalRuleTexts = []\<rparr>
   \<and> getRulesData exampleIds lookupFilterName emptyReplaceEvent (Some exampleMetadata)
       = \<lparr>appliedRuleTexts = [], originalRuleTexts = []\<rparr>
   \<and> getRulesData exampleIds lookupFilterName emptyReplaceEvent (Some exampleMetadata)
       \<noteq> addRule emptyRulesData blockingRule None"
  by (simp add: getRulesData_def emptyReplaceEvent_def noEvent_def addRuleGroup_def
        addRule_def emptyRulesData_def blockingRule_def withFilterName_def)

subsection \<open>A single request rule\<close>

text \<open>
  Claim C2, as the code has it. For an event with no replace rules and no stealth
  allowlist rules, whose request rule has a non-empty applied text and is not the
  document-level allowlist rule of the allowlist filter, the applied texts are
  exactly that text, with no filter name; the original texts are empty, unless the
  rule has a non-empty original text, which is then the only one, bare as well.
\<close>

theorem getRulesData_single_requestRule:
  assumes "replaceRules event = None" and "stealthAllowlistRules event = None"
    and "requestRule event = Some rule"
    and "appliedRuleText rule = Some applied" and "applied \<noteq> []"
    and "\<not> (allowlistRule rule \<and> documentLevelRule rule
             \<and> filterId rule = AllowlistFilterId ids)"
  shows "appliedRuleTexts (getRulesData ids getFilterName event filtersMetadata) = [applied]
         \<and> originalRuleTexts (getRulesData ids getFilterName event filtersMetadata)
            = (case originalRuleText rule of
                 None \<Rightarrow> []
               | Some original \<Rightarrow> if original = [] then [] else [original])"
  using assms
  by (auto simp: getRulesData_def addRule_def emptyRulesData_def withFilterName_def Let_def
        split: option.splits)

theorem getRulesData_single_requestRule_witness:
  "appliedRuleTexts (getRulesData exampleIds lookupFilterName blockedEvent (Some exampleMetadata))
     = [''||ads.example^'']
   \<and> originalRuleTexts (getRulesData exampleIds lookupFilterName blockedEvent (Some exampleMetadata))
     = []"
  using getRulesData_single_requestRule
          [of blockedEvent blockingRule "''||ads.example^''" exampleIds lookupFilterName
              "Some exampleMetadata"]
  by (simp add: blockedEvent_def noEvent_def blockingRule_def exampleIds_def)

text \<open>
  Claim C2 as it is written leaves the allowlist case out: the request rule of
  \<open>allowlistedEvent\<close> has a non-empty applied text, and the applied texts are empty.
\<close>

theorem getRulesData_single_requestRule_counterexample:
  "replaceRules allowlistedEvent = None
   \<and> stealthAllowlistRules allowlistedEvent = None
   \<and> requestRule allowlistedEvent = Some allowlistDocumentRule
   \<and> appliedRuleText allowlistDocumentRule = Some ''@@//example.org^$document''
   \<and> appliedRuleTexts
        (getRulesData exampleIds lookupFilterName allowlistedEvent (Some exampleMetadata)) = []
   \<and> appliedRuleTexts
        (getRulesData exampleIds lookupFilterName allowlistedEvent (Some exampleMetadata))
       \<noteq> [''@@//example.org^$document'']"
  by (simp add: getRulesData_def allowlistedEvent_def noEvent_def allowlistDocumentRule_def
        exampleIds_def emptyRulesData_def)

text \<open>
  Claim C3. For an event with no replace rules and no stealth allowlist rules, whose
  request rule is an allowlist rule, is a document-level rule and belongs to the
  allowlist filter, both sequences of texts are empty.
\<close>

theorem getRulesData_allowlist_document:
  assumes "replaceRules event = None" and "stealthAllowlistRules event = None"
    and "requestRule event = Some rule"
    and "allowlistRule rule" and "documentLevelRule rule"
    and "filterId rule = AllowlistFilterId ids"
  shows "getRulesData ids getFilterName event filtersMetadata
         = \<lparr>appliedRuleTexts = [], originalRuleTexts = []\<rparr>"
  using assms by (simp add: getRulesData_def emptyRulesData_def)

theorem getRulesData_allowlist_document_witness:
  "getRulesData exampleIds lookupFilterName allowlistedEvent (Some exampleMetadata)
   = \<lparr>appliedRuleTexts = [], originalRuleTexts = []\<rparr>"
  using getRulesData_allowlist_document
          [of allowlistedEvent allowlistDocumentRule exampleIds lookupFilterName
              "Some exampleMetadata"]
  by (simp add: allowlistedEvent_def noEvent_def allowlistDocumentRule_def exampleIds_def)

subsection \<open>Groups of rules\<close>

lemma addRule_applied:
  "appliedRuleTexts (addRule res rule fn)
   = appliedRuleTexts res
     @ (case appliedRuleText rule of
          None \<Rightarrow> []
        | Some t \<Rightarrow> if t = [] then [] else [withFilterName t fn])"
  by (simp add: addRule_def Let_def split: option.splits)

lemma addRule_original:
  "originalRuleTexts (addRule res rule fn)
   = originalRuleTexts res
     @ (case originalRuleText rule of
          None \<Rightarrow> []
        | Some t \<Rightarrow> if t = [] then [] else [withFilterName t fn])"
  by (simp add: addRule_def Let_def split: option.splits)

text \<open>The loop of \<open>addRuleGroup\<close> appends, rule by rule; \<open>nm\<close> names a rule's filter.\<close>

lemma foldl_addRule_applied:
  "appliedRuleTexts (foldl (\<lambda>res rule. addRule res rule (nm rule)) res rs)
   = appliedRuleTexts res
     @ concat (map (\<lambda>rule. case appliedRuleText rule of
                              None \<Rightarrow> []
                            | Some t \<Rightarrow> if t = [] then [] else [withFilterName t (nm rule)]) rs)"
  by (induction rs arbitrary: res) (simp_all add: addRule_applied)

lemma foldl_addRule_original:
  "originalRuleTexts (foldl (\<lambda>res rule. addRule res rule (nm rule)) res rs)
   = originalRuleTexts res
     @ concat (map (\<lambda>rule. case originalRuleText rule of
                              None \<Rightarrow> []
                            | Some t \<Rightarrow> if t = [] then [] else [withFilterName t (nm rule)]) rs)"
  by (induction rs arbitrary: res) (simp_all add: addRule_original)

lemma addRuleGroup_one:
  "addRuleGroup getFilterName filtersMetadata res (Some [rule]) = addRule res rule None"
  by (simp add: addRuleGroup_def)

lemma addRuleGroup_many:
  "length rs \<noteq> 1 \<Longrightarrow>
   addRuleGroup getFilterName filtersMetadata res (Some rs)
   = foldl (\<lambda>res rule.
              addRule res rule
                (case filtersMetadata of
                   Some metadata \<Rightarrow> getFilterName (Some (filterId rule)) (Some metadata)
                 | None \<Rightarrow> None))
       res rs"
  by (cases rs; cases "tl rs") (simp_all add: addRuleGroup_def)

lemma withFilterName_cases:
  "withFilterName t n
   = (case n of None \<Rightarrow> t | Some name \<Rightarrow> if name = [] then t else t @ '' ('' @ name @ '')'')"
  by (simp add: withFilterName_def split: option.splits)

text \<open>
  Claim C7. A group of exactly one rule adds that rule's applied and original text
  as they are, with no filter name. A group of any other length (two or more rules
  in particular) adds, for every rule in order, its applied text and its original
  text in the form \<open>text (name)\<close> when the rule's filter resolves to a name, and as
  the bare text when the resolution gives null, which it does for every rule when
  there is no metadata. A name that is the empty string counts as no name. A text
  that is missing or empty adds nothing.
\<close>

theorem addRuleGroup_annotation:
  "(appliedRuleTexts (addRuleGroup getFilterName filtersMetadata res (Some [rule]))
      = appliedRuleTexts res
        @ (case appliedRuleText rule of None \<Rightarrow> [] | Some t \<Rightarrow> if t = [] then [] else [t])
    \<and> originalRuleTexts (addRuleGroup getFilterName filtersMetadata res (Some [rule]))
      = originalRuleTexts res
        @ (case originalRuleText rule of None \<Rightarrow> [] | Some t \<Rightarrow> if t = [] then [] else [t]))
   \<and> (length rs \<noteq> 1 \<longrightarrow>
        appliedRuleTexts (addRuleGroup getFilterName filtersMetadata res (Some rs))
          = appliedRuleTexts res
            @ concat (map (\<lambda>rule.
                 case appliedRuleText rule of
                   None \<Rightarrow> []
                 | Some t \<Rightarrow>
                     if t = [] then []
                     else [case (case filtersMetadata of
                                   None \<Rightarrow> None
                                 | Some metadata \<Rightarrow>
                                     getFilterName (Some (filterId rule)) (Some metadata)) of
                             None \<Rightarrow> t
                           | Some name \<Rightarrow> if name = [] then t else t @ '' ('' @ name @ '')'']) rs)
        \<and> originalRuleTexts (addRuleGroup getFilterName filtersMetadata res (Some rs))
          = originalRuleTexts res
            @ concat (map (\<lambda>rule.
                 case originalRuleText rule of
                   None \<Rightarrow> []
                 | Some t \<Rightarrow>
                     if t = [] then []
                     else [case (case filtersMetadata of
                                   None \<Rightarrow> None
                                 | Some metadata \<Rightarrow>
                                     getFilterName (Some (filterId rule)) (Some metadata)) of
                             None \<Rightarrow> t
                           | Some name \<Rightarrow> if name = [] then t else t @ '' ('' @ name @ '')'']) rs))"
proof (intro conjI impI)
  show "appliedRuleTexts (addRuleGroup getFilterName filtersMetadata res (Some [rule]))
        = appliedRuleTexts res
          @ (case appliedRuleText rule of None \<Rightarrow> [] | Some t \<Rightarrow> if t = [] then [] else [t])"
    by (simp add: addRuleGroup_one addRule_applied withFilterName_cases split: option.splits)
next
  show "originalRuleTexts (addRuleGroup getFilterName filtersMetadata res (Some [rule]))
        = originalRuleTexts res
          @ (case originalRuleText rule of None \<Rightarrow> [] | Some t \<Rightarrow> if t = [] then [] else [t])"
    by (simp add: addRuleGroup_one addRule_original withFilterName_cases split: option.splits)
next
  assume "length rs \<noteq> 1"
  then show "appliedRuleTexts (addRuleGroup getFilterName filtersMetadata res (Some rs))
          = appliedRuleTexts res
            @ concat (map (\<lambda>rule.
                 case appliedRuleText rule of
                   None \<Rightarrow> []
                 | Some t \<Rightarrow>
                     if t = [] then []
                     else [case (case filtersMetadata of
                                   None \<Rightarrow> None
                                 | Some metadata \<Rightarrow>
                                     getFilterName (Some (filterId rule)) (Some metadata)) of
                             None \<Rightarrow> t
                           | Some name \<Rightarrow> if name = [] then t else t @ '' ('' @ name @ '')'']) rs)"
    by (simp add: addRuleGroup_many foldl_addRule_applied withFilterName_cases
          cong: option.case_cong if_cong)
next
  assume "length rs \<noteq> 1"
  then show "originalRuleTexts (addRuleGroup getFilterName filtersMetadata res (Some rs))
          = originalRuleTexts res
            @ concat (map (\<lambda>rule.
                 case originalRuleText rule of
                   None \<Rightarrow> []
                 | Some t \<Rightarrow>
                     if t = [] then []
                     else [case (case filtersMetadata of
                                   None \<Rightarrow> None
                                 | Some metadata \<Rightarrow>
                                     getFilterName (Some (filterId rule)) (Some metadata)) of
                             None \<Rightarrow> t
                           | Some name \<Rightarrow> if name = [] then t else t @ '' ('' @ name @ '')'']) rs)"
    by (simp add: addRuleGroup_many foldl_addRule_original withFilterName_cases
          cong: option.case_cong if_cong)
qed

text \<open>
  The theorem on a group of three: a rule of a known filter, a rule of a filter that
  the metadata does not have, and a rule with no text.
\<close>

theorem addRuleGroup_annotation_witness:
  "appliedRuleTexts
     (addRuleGroup lookupFilterName (Some exampleMetadata) emptyRulesData
        (Some [convertedRule, unknownFilterRule, textlessRule]))
     = [''||t.example^$replace=/a/b/ (Tracking Protection)'', ''||x.example^'']
   \<and> originalRuleTexts
     (addRuleGroup lookupFilterName (Some exampleMetadata) emptyRulesData
        (Some [convertedRule, unknownFilterRule, textlessRule]))
     = [''t.example$$replace (Tracking Protection)'']"
  using addRuleGroup_annotation
          [of lookupFilterName "Some exampleMetadata" emptyRulesData _
              "[convertedRule, unknownFilterRule, textlessRule]"]
  by (simp add: emptyRulesData_def convertedRule_def unknownFilterRule_def textlessRule_def
        blockingRule_def lookupFilterName_def exampleMetadata_def)

subsection \<open>The filter named for the event\<close>

text \<open>
  Claim C10. \<open>getRuleFilterName\<close> looks at the groups in the other order. When the
  request rule is there, the name is that of its filter, also when replace rules are
  there too (and \<open>getRulesData\<close> then takes its texts from the replace rules).
  Without a request rule, the name is that of the only replace rule when there is
  exactly one; failing that, that of the only stealth allowlist rule when there is
  exactly one; and null in every other case.
\<close>

theorem getRuleFilterName_precedence:
  "(requestRule event = Some rule \<longrightarrow>
      getRuleFilterName getFilterName event filtersMetadata
        = getFilterName (Some (filterId rule)) filtersMetadata)
   \<and> (requestRule event = Some rule \<and> replaceRules event = Some rs \<longrightarrow>
      getRulesData ids getFilterName event filtersMetadata
        = addRuleGroup getFilterName filtersMetadata emptyRulesData (Some rs))
   \<and> (requestRule event = None \<and> replaceRules event = Some rs \<and> length rs = 1 \<longrightarrow>
      getRuleFilterName getFilterName event filtersMetadata
        = getFilterName (Some (filterId (rs ! 0))) filtersMetadata)
   \<and> (requestRule event = None \<and> map_option length (replaceRules event) \<noteq> Some 1
      \<and> stealthAllowlistRules event = Some rs \<and> length rs = 1 \<longrightarrow>
      getRuleFilterName getFilterName event filtersMetadata
        = getFilterName (Some (filterId (rs ! 0))) filtersMetadata)
   \<and> (requestRule event = None \<and> map_option length (replaceRules event) \<noteq> Some 1
      \<and> map_option length (stealthAllowlistRules event) \<noteq> Some 1 \<longrightarrow>
      getRuleFilterName getFilterName event filtersMetadata = None)"
  by (auto simp: getRuleFilterName_def getRulesData_def length_Suc_conv
        split: option.splits list.splits)

theorem getRuleFilterName_precedence_witness:
  "getRuleFilterName lookupFilterName
     (blockedEvent\<lparr>replaceRules := Some [convertedRule]\<rparr>) (Some exampleMetadata)
   = Some ''Base filter''
   \<and> appliedRuleTexts (getRulesData exampleIds lookupFilterName
        (blockedEvent\<lparr>replaceRules := Some [convertedRule]\<rparr>) (Some exampleMetadata))
     = [''||t.example^$replace=/a/b/'']
   \<and> getRuleFilterName lookupFilterName
        (noEvent\<lparr>replaceRules := Some [convertedRule]\<rparr>) (Some exampleMetadata)
     = Some ''Tracking Protection''
   \<and> getRuleFilterName lookupFilterName
        (noEvent\<lparr>replaceRules := Some [convertedRule, blockingRule],
                 stealthAllowlistRules := Some [blockingRule]\<rparr>) (Some exampleMetadata)
     = Some ''Base filter''
   \<and> getRuleFilterName lookupFilterName
        (noEvent\<lparr>replaceRules := Some [convertedRule, blockingRule]\<rparr>) (Some exampleMetadata)
     = None"
proof -
  let ?both = "blockedEvent\<lparr>replaceRules := Some [convertedRule]\<rparr>"
  let ?one = "noEvent\<lparr>replaceRules := Some [convertedRule]\<rparr>"
  let ?stealth = "noEvent\<lparr>replaceRules := Some [convertedRule, blockingRule],
                           stealthAllowlistRules := Some [blockingRule]\<rparr>"
  let ?two = "noEvent\<lparr>replaceRules := Some [convertedRule, blockingRule]\<rparr>"
  have a: "getRuleFilterName lookupFilterName ?both (Some exampleMetadata) = Some ''Base filter''"
    using getRuleFilterName_precedence
            [of ?both blockingRule lookupFilterName "Some exampleMetadata"]
    by (simp add: blockedEvent_def noEvent_def blockingRule_def lookupFilterName_def
          exampleMetadata_def)
  have b: "appliedRuleTexts (getRulesData exampleIds lookupFilterName ?both (Some exampleMetadata))
           = [''||t.example^$replace=/a/b/'']"
    using getRuleFilterName_precedence
            [of ?both blockingRule lookupFilterName "Some exampleMetadata" "[convertedRule]"
                exampleIds]
    by (simp add: blockedEvent_def noEvent_def addRuleGroup_def addRule_def emptyRulesData_def
          withFilterName_def convertedRule_def)
  have c: "getRuleFilterName lookupFilterName ?one (Some exampleMetadata)
           = Some ''Tracking Protection''"
    using getRuleFilterName_precedence
            [of ?one _ lookupFilterName "Some exampleMetadata" "[convertedRule]"]
    by (simp add: noEvent_def convertedRule_def lookupFilterName_def exampleMetadata_def)
  have d: "getRuleFilterName lookupFilterName ?stealth (Some exampleMetadata)
           = Some ''Base filter''"
    using getRuleFilterName_precedence
            [of ?stealth _ lookupFilterName "Some exampleMetadata" "[blockingRule]"]
    by (simp add: noEvent_def blockingRule_def lookupFilterName_def exampleMetadata_def)
  have e: "getRuleFilterName lookupFilterName ?two (Some exampleMetadata) = None"
    using getRuleFilterName_precedence
            [of ?two _ lookupFilterName "Some exampleMetadata"]
    by (simp add: noEvent_def)
  from a b c d e show ?thesis by simp
qed

section \<open>Properties of the control buttons\<close>

lemma preview_distinct:
  "k \<noteq> PREVIEW \<Longrightarrow>
   renderButton store (BUTTON_MAP event PREVIEW) \<noteq> renderButton store (BUTTON_MAP event k)"
  by (cases k) (simp_all add: renderButton_def)

lemma showPreviewButton_iff:
  "showPreviewButton getStatusMode event
   \<longleftrightarrow> requestType event \<in> Some ` {Image, Document, Subdocument, Script, Stylesheet}
       \<and> \<not> truthy_string (element event) \<and> \<not> truthy_bool (script event)
       \<and> \<not> truthy_string (cookieName event) \<and> getStatusMode event \<noteq> BLOCKED"
  by (auto simp: showPreviewButton_def previewableTypes_def split: option.splits)

text \<open>
  Outside the two added-rule states the fragment is one or two buttons, none of them
  the preview button, followed by the preview button when \<open>showPreviewButton\<close> holds.
\<close>

lemma renderControlButtons_shape:
  assumes "addedRuleState store \<noteq> Some Block" and "addedRuleState store \<noteq> Some Unblock"
  shows "\<exists>base. base \<noteq> []
           \<and> renderButton store (BUTTON_MAP event PREVIEW) \<notin> set base
           \<and> renderControlButtons ids getStatusMode store event
               = base @ (if showPreviewButton getStatusMode event
                         then [renderButton store (BUTTON_MAP event PREVIEW)] else [])"
proof (cases "requestRule event")
  case None
  with assms show ?thesis
    by (intro exI[of _ "[renderButton store (BUTTON_MAP event BLOCK)]"])
       (simp add: renderControlButtons_def preview_distinct del: BUTTON_MAP.simps)
next
  case (Some rule)
  let ?user = "renderButton store
                 (BUTTON_MAP event (if isStealthModeRule rule then UNBLOCK else USER_FILTER))"
  let ?block = "renderButton store (BUTTON_MAP event BLOCK)"
  consider (both) "filterId rule = UserFilterId ids" "allowlistRule rule"
    | (user) "filterId rule = UserFilterId ids" "\<not> allowlistRule rule"
    | (allow) "filterId rule \<noteq> UserFilterId ids" "filterId rule = AllowlistFilterId ids"
    | (unblock) "filterId rule \<noteq> UserFilterId ids" "filterId rule \<noteq> AllowlistFilterId ids"
        "\<not> allowlistRule rule"
    | (block) "filterId rule \<noteq> UserFilterId ids" "filterId rule \<noteq> AllowlistFilterId ids"
        "allowlistRule rule"
    by blast
  then show ?thesis
  proof cases
    case both
    with assms Some show ?thesis
      by (intro exI[of _ "[?block, ?user]"])
         (simp add: renderControlButtons_def preview_distinct del: BUTTON_MAP.simps)
  next
    case user
    with assms Some show ?thesis
      by (intro exI[of _ "[?user]"])
         (simp add: renderControlButtons_def preview_distinct del: BUTTON_MAP.simps)
  next
    case allow
    with assms Some show ?thesis
      by (intro exI[of _ "[renderButton store (BUTTON_MAP event ALLOWLIST)]"])
         (simp add: renderControlButtons_def preview_distinct del: BUTTON_MAP.simps)
  next
    case unblock
    with assms Some show ?thesis
      by (intro exI[of _ "[renderButton store (BUTTON_MAP event UNBLOCK)]"])
         (simp add: renderControlButtons_def preview_distinct del: BUTTON_MAP.simps)
  next
    case block
    with assms Some show ?thesis
      by (intro exI[of _ "[?block]"])
         (simp add: renderControlButtons_def preview_distinct del: BUTTON_MAP.simps)
  qed
qed

lemma renderControlButtons_nonempty:
  "renderControlButtons ids getStatusMode store event \<noteq> []"
  by (simp add: renderControlButtons_def Let_def split: option.splits del: BUTTON_MAP.simps)

text \<open>
  Claim C4. When the added-rule state is \<open>Block\<close>, the buttons are the single button
  of \<open>REMOVE_ADDED_BLOCK_RULE\<close>, and when it is \<open>Unblock\<close>, the single button of
  \<open>REMOVE_ADDED_UNBLOCK_RULE\<close>, for every event, whatever its request rule; the
  preview button is not among them.
\<close>

theorem renderControlButtons_added_rule:
  "(addedRuleState store = Some Block \<longrightarrow>
      renderControlButtons ids getStatusMode store event
        = [renderButton store (BUTTON_MAP event REMOVE_ADDED_BLOCK_RULE)]
      \<and> renderButton store (BUTTON_MAP event PREVIEW)
          \<notin> set (renderControlButtons ids getStatusMode store event))
   \<and> (addedRuleState store = Some Unblock \<longrightarrow>
      renderControlButtons ids getStatusMode store event
        = [renderButton store (BUTTON_MAP event REMOVE_ADDED_UNBLOCK_RULE)]
      \<and> renderButton store (BUTTON_MAP event PREVIEW)
          \<notin> set (renderControlButtons ids getStatusMode store event))"
  by (simp add: renderControlButtons_def preview_distinct del: BUTTON_MAP.simps)

text \<open>
  The theorem at an event that has a request rule and would show the preview button.
\<close>

theorem renderControlButtons_added_rule_witness:
  "renderControlButtons exampleIds alwaysRegular
     (idleStore\<lparr>addedRuleState := Some Block\<rparr>) userAllowlistEvent
   = [\<lparr>disabled = False, buttonClass = ''request-modal__button'',
       titleKey = ''filtering_modal_remove_user'',
       onClickHandler = removeAddedRuleFromUserFilter\<rparr>]
   \<and> renderControlButtons exampleIds alwaysRegular
     (idleStore\<lparr>addedRuleState := Some Unblock\<rparr>) userAllowlistEvent
   = [\<lparr>disabled = False,
       buttonClass = ''request-modal__button request-modal__button--red'',
       titleKey = ''filtering_modal_block_again'',
       onClickHandler = removeAddedRuleFromUserFilter\<rparr>]"
  using renderControlButtons_added_rule
          [of "idleStore\<lparr>addedRuleState := Some Block\<rparr>" exampleIds alwaysRegular
              userAllowlistEvent]
        renderControlButtons_added_rule
          [of "idleStore\<lparr>addedRuleState := Some Unblock\<rparr>" exampleIds alwaysRegular
              userAllowlistEvent]
  by (simp add: idleStore_def renderButton_def)

text \<open>
  Claim C5. With no added rule, for a request rule of the user filter that is an
  allowlist rule, the buttons are the button of \<open>BLOCK\<close>, then the button of
  \<open>USER_FILTER\<close> (remove from the user rules), or the button of \<open>UNBLOCK\<close> in its
  place when the rule is a stealth-mode rule, then the preview button when the event
  is eligible for it.
\<close>

theorem renderControlButtons_user_allowlist:
  assumes "addedRuleState store \<noteq> Some Block" and "addedRuleState store \<noteq> Some Unblock"
    and "requestRule event = Some rule"
    and "filterId rule = UserFilterId ids" and "allowlistRule rule"
  shows "renderControlButtons ids getStatusMode store event
         = [renderButton store (BUTTON_MAP event BLOCK),
            renderButton store
              (BUTTON_MAP event (if isStealthModeRule rule then UNBLOCK else USER_FILTER))]
           @ (if showPreviewButton getStatusMode event
              then [renderButton store (BUTTON_MAP event PREVIEW)] else [])"
  using assms by (simp add: renderControlButtons_def)

text \<open>
  The theorem at an image request allowlisted by a user rule, and at the same event
  with a stealth-mode rule and a cookie name (so, no preview).
\<close>

theorem renderControlButtons_user_allowlist_witness:
  "renderControlButtons exampleIds alwaysRegular idleStore userAllowlistEvent
   = [renderButton idleStore (BUTTON_MAP userAllowlistEvent BLOCK),
      renderButton idleStore (BUTTON_MAP userAllowlistEvent USER_FILTER),
      renderButton idleStore (BUTTON_MAP userAllowlistEvent PREVIEW)]
   \<and> renderControlButtons exampleIds alwaysRegular idleStore
       (userAllowlistEvent\<lparr>requestRule := Some (userAllowlistRule\<lparr>isStealthModeRule := True\<rparr>),
                           cookieName := Some ''sid''\<rparr>)
   = [renderButton idleStore
        (BUTTON_MAP (userAllowlistEvent\<lparr>requestRule := Some (userAllowlistRule\<lparr>isStealthModeRule := True\<rparr>),
                           cookieName := Some ''sid''\<rparr>) BLOCK),
      renderButton idleStore
        (BUTTON_MAP (userAllowlistEvent\<lparr>requestRule := Some (userAllowlistRule\<lparr>isStealthModeRule := True\<rparr>),
                           cookieName := Some ''sid''\<rparr>) UNBLOCK)]"
  using renderControlButtons_user_allowlist
          [of idleStore userAllowlistEvent userAllowlistRule exampleIds alwaysRegular]
        renderControlButtons_user_allowlist
          [of idleStore
              "userAllowlistEvent\<lparr>requestRule := Some (userAllowlistRule\<lparr>isStealthModeRule := True\<rparr>),
                           cookieName := Some ''sid''\<rparr>"
              "userAllowlistRule\<lparr>isStealthModeRule := True\<rparr>" exampleIds alwaysRegular]
  by (simp add: idleStore_def userAllowlistEvent_def imageEvent_def noEvent_def
        userAllowlistRule_def exampleIds_def showPreviewButton_def previewableTypes_def
        alwaysRegular_def del: BUTTON_MAP.simps)

text \<open>
  Claim C6. With no added rule: an event with no request rule, a request type among
  image, document, subdocument, script and stylesheet, none of the markers
  \<open>element\<close>, \<open>script\<close> and \<open>cookieName\<close> set and a status other than \<open>BLOCKED\<close>
  has exactly the buttons of \<open>BLOCK\<close> and \<open>PREVIEW\<close>; and for every event the
  preview button is among the buttons exactly when these conditions on the type, the
  markers and the status hold, and it is then the last button, after the others,
  and only there.
\<close>

theorem renderControlButtons_preview:
  assumes "addedRuleState store \<noteq> Some Block" and "addedRuleState store \<noteq> Some Unblock"
  shows "(requestRule event = None
          \<and> requestType event \<in> Some ` {Image, Document, Subdocument, Script, Stylesheet}
          \<and> \<not> truthy_string (element event) \<and> \<not> truthy_bool (script event)
          \<and> \<not> truthy_string (cookieName event) \<and> getStatusMode event \<noteq> BLOCKED
          \<longrightarrow> renderControlButtons ids getStatusMode store event
              = [renderButton store (BUTTON_MAP event BLOCK),
                 renderButton store (BUTTON_MAP event PREVIEW)])
         \<and> (renderButton store (BUTTON_MAP event PREVIEW)
               \<in> set (renderControlButtons ids getStatusMode store event)
             \<longleftrightarrow> requestType event \<in> Some ` {Image, Document, Subdocument, Script, Stylesheet}
                 \<and> \<not> truthy_string (element event) \<and> \<not> truthy_bool (script event)
                 \<and> \<not> truthy_string (cookieName event) \<and> getStatusMode event \<noteq> BLOCKED)
         \<and> (renderButton store (BUTTON_MAP event PREVIEW)
               \<in> set (renderControlButtons ids getStatusMode store event)
             \<longrightarrow> last (renderControlButtons ids getStatusMode store event)
                   = renderButton store (BUTTON_MAP event PREVIEW)
                 \<and> butlast (renderControlButtons ids getStatusMode store event) \<noteq> []
                 \<and> renderButton store (BUTTON_MAP event PREVIEW)
                     \<notin> set (butlast (renderControlButtons ids getStatusMode store event)))"
proof -
  let ?preview = "renderButton store (BUTTON_MAP event PREVIEW)"
  let ?buttons = "renderControlButtons ids getStatusMode store event"
  obtain base where base: "base \<noteq> []" "?preview \<notin> set base"
    and shape: "?buttons = base @ (if showPreviewButton getStatusMode event then [?preview] else [])"
    using renderControlButtons_shape[OF assms] by blast
  have member: "?preview \<in> set ?buttons \<longleftrightarrow> showPreviewButton getStatusMode event"
    using base by (simp add: shape del: BUTTON_MAP.simps)
  have first: "requestRule event = None \<Longrightarrow> showPreviewButton getStatusMode event \<Longrightarrow>
               ?buttons = [renderButton store (BUTTON_MAP event BLOCK), ?preview]"
    using assms by (simp add: renderControlButtons_def del: BUTTON_MAP.simps)
  have after: "showPreviewButton getStatusMode event \<Longrightarrow>
               last ?buttons = ?preview \<and> butlast ?buttons \<noteq> [] \<and> ?preview \<notin> set (butlast ?buttons)"
    using base by (simp add: shape del: BUTTON_MAP.simps)
  show ?thesis
    using member first after unfolding showPreviewButton_iff by blast
qed

theorem renderControlButtons_preview_witness:
  "renderControlButtons exampleIds alwaysRegular idleStore imageEvent
   = [renderButton idleStore (BUTTON_MAP imageEvent BLOCK),
      renderButton idleStore (BUTTON_MAP imageEvent PREVIEW)]
   \<and> renderButton idleStore (BUTTON_MAP imageEvent PREVIEW)
       \<in> set (renderControlButtons exampleIds alwaysRegular idleStore imageEvent)
   \<and> last (renderControlButtons exampleIds alwaysRegular idleStore imageEvent)
       = renderButton idleStore (BUTTON_MAP imageEvent PREVIEW)"
  using renderControlButtons_preview
          [of idleStore imageEvent alwaysRegular exampleIds]
  by (simp add: idleStore_def imageEvent_def noEvent_def alwaysRegular_def
        del: BUTTON_MAP.simps)

section \<open>Missing texts and the default button\<close>

lemma length_concat_optional:
  "length (concat (map (\<lambda>rule. case f rule of
                                  None \<Rightarrow> []
                                | Some t \<Rightarrow> if t = [] then [] else [g rule t]) rs))
   = length (filter (\<lambda>rule. truthy_string (f rule)) rs)"
  by (induction rs) (simp_all split: option.splits)

lemma addRuleGroup_applied_length:
  "length (appliedRuleTexts (addRuleGroup getFilterName filtersMetadata emptyRulesData (Some rs)))
   = length (filter (\<lambda>rule. truthy_string (appliedRuleText rule)) rs)"
proof (cases "length rs = 1")
  case True
  then obtain rule where "rs = [rule]" by (auto simp: length_Suc_conv)
  then show ?thesis
    by (simp add: addRuleGroup_one addRule_applied emptyRulesData_def split: option.splits)
next
  case False
  then show ?thesis
    by (simp add: addRuleGroup_many foldl_addRule_applied emptyRulesData_def
          length_concat_optional)
qed

lemma addRuleGroup_original_length:
  "length (originalRuleTexts (addRuleGroup getFilterName filtersMetadata emptyRulesData (Some rs)))
   = length (filter (\<lambda>rule. truthy_string (originalRuleText rule)) rs)"
proof (cases "length rs = 1")
  case True
  then obtain rule where "rs = [rule]" by (auto simp: length_Suc_conv)
  then show ?thesis
    by (simp add: addRuleGroup_one addRule_original emptyRulesData_def split: option.splits)
next
  case False
  then show ?thesis
    by (simp add: addRuleGroup_many foldl_addRule_original emptyRulesData_def
          length_concat_optional)
qed

text \<open>
  On an event of the declared type and with helpers that return, the functions with
  failures return, and what they return is the result of the functions without.
\<close>

lemma forEachRule_typed:
  "forEachRule_raising (\<lambda>fid md. Inr (getFilterName fid md)) filtersMetadata res (map Some rs)
   = Inr (foldl (\<lambda>res rule.
                   addRule res rule
                     (case filtersMetadata of
                        Some metadata \<Rightarrow> getFilterName (Some (filterId rule)) (Some metadata)
                      | None \<Rightarrow> None))
            res rs)"
  by (cases filtersMetadata; induction rs arbitrary: res) (simp_all add: addRule_raising_def)

lemma addRuleGroup_typed:
  "addRuleGroup_raising (\<lambda>fid md. Inr (getFilterName fid md)) filtersMetadata res
     (map_option (map Some) rules)
   = Inr (addRuleGroup getFilterName filtersMetadata res rules)"
proof (cases rules)
  case None
  then show ?thesis by (simp add: addRuleGroup_raising_def addRuleGroup_def)
next
  case (Some rs)
  show ?thesis
  proof (cases "length rs = 1")
    case True
    then obtain rule where "rs = [rule]" by (auto simp: length_Suc_conv)
    with Some show ?thesis
      by (simp add: addRuleGroup_raising_def addRuleGroup_one addRule_raising_def)
  next
    case False
    then have "(case map Some rs of
                  [Some rule] \<Rightarrow> addRule_raising res (Some rule) None
                | _ \<Rightarrow> forEachRule_raising (\<lambda>fid md. Inr (getFilterName fid md))
                         filtersMetadata res (map Some rs))
               = forEachRule_raising (\<lambda>fid md. Inr (getFilterName fid md))
                   filtersMetadata res (map Some rs)"
      by (cases rs; cases "tl rs") simp_all
    with Some False show ?thesis
      by (simp add: addRuleGroup_raising_def addRuleGroup_many forEachRule_typed)
  qed
qed

lemma getRulesData_typed:
  "getRulesData_raising ids (\<lambda>fid md. Inr (getFilterName fid md)) (runtimeEvent event)
     filtersMetadata
   = Inr (getRulesData ids getFilterName event filtersMetadata)"
proof -
  have group: "addRuleGroup_raising (\<lambda>fid md. Inr (getFilterName fid md)) filtersMetadata
                 emptyRulesData (Some (map Some rs))
               = Inr (addRuleGroup getFilterName filtersMetadata emptyRulesData (Some rs))" for rs
    using addRuleGroup_typed[of getFilterName filtersMetadata emptyRulesData "Some rs"] by simp
  show ?thesis
    by (simp add: getRulesData_raising_def getRulesData_def runtimeEvent_def group
          addRule_raising_def split: option.splits)
qed

lemma showPreviewButton_typed:
  "showPreviewButton_raising (\<lambda>event. Inr (getStatusMode event)) event
   = Inr (showPreviewButton getStatusMode event)"
  by (auto simp: showPreviewButton_raising_def showPreviewButton_def)

lemma renderControlButtons_typed:
  "renderControlButtons_raising ids (\<lambda>event. Inr (getStatusMode event)) store event
   = Inr (renderControlButtons ids getStatusMode store event)"
  by (simp add: renderControlButtons_raising_def renderControlButtons_def
        showPreviewButton_typed del: BUTTON_MAP.simps)

text \<open>
  The error value is not idle: a group with a null or undefined entry, which the
  declared type of the array excludes, raises a \<^verbatim>\<open>TypeError\<close>, also when it is
  the only entry (the test \<^verbatim>\<open>rules[0]\<close> sends it to the loop).
\<close>

lemma forEachRule_null_entry:
  "None \<in> set rs \<Longrightarrow>
   forEachRule_raising (\<lambda>fid md. Inr (getFilterName fid md)) filtersMetadata res rs
   = Inl TypeError"
proof (induction rs arbitrary: res)
  case Nil
  then show ?case by simp
next
  case (Cons rule rs)
  show ?case
  proof (cases rule)
    case None
    then show ?thesis
      by (cases filtersMetadata) (simp_all add: addRule_raising_def)
  next
    case (Some r)
    with Cons.prems have "None \<in> set rs" by simp
    then show ?thesis
      using Some Cons.IH by (cases filtersMetadata) (simp_all add: addRule_raising_def)
  qed
qed

lemma addRuleGroup_null_entry:
  "None \<in> set rs \<Longrightarrow>
   addRuleGroup_raising (\<lambda>fid md. Inr (getFilterName fid md)) filtersMetadata res (Some rs)
   = Inl TypeError"
proof -
  assume null: "None \<in> set rs"
  then have "(case rs of
                [Some rule] \<Rightarrow> addRule_raising res (Some rule) None
              | _ \<Rightarrow> forEachRule_raising (\<lambda>fid md. Inr (getFilterName fid md))
                       filtersMetadata res rs)
             = forEachRule_raising (\<lambda>fid md. Inr (getFilterName fid md))
                 filtersMetadata res rs"
    by (auto split: list.splits option.splits)
  with null show ?thesis
    by (simp add: addRuleGroup_raising_def forEachRule_null_entry)
qed

text \<open>
  Claim C8. For every event of the declared type, with helpers (\<^verbatim>\<open>getFilterName\<close>,
  \<^verbatim>\<open>getStatusMode\<close>) that return, \<^verbatim>\<open>getRulesData\<close> and
  \<^verbatim>\<open>renderControlButtons\<close> do not raise: written with their failures, they
  return, and return the results of the functions above. A rule with no applied text
  (missing or empty) leaves the applied texts as they were, and likewise for the
  original text; a group gives exactly one applied text for each of its rules that
  has one, and one original text for each that has one. The buttons are never an
  empty fragment, and with no added rule and no request rule the first button is
  that of \<open>BLOCK\<close>.
\<close>

theorem resolvers_never_raise:
  "getRulesData_raising ids (\<lambda>fid md. Inr (getFilterName fid md)) (runtimeEvent event)
     filtersMetadata
   = Inr (getRulesData ids getFilterName event filtersMetadata)
   \<and> renderControlButtons_raising ids (\<lambda>event. Inr (getStatusMode event)) store event
     = Inr (renderControlButtons ids getStatusMode store event)
   \<and> (\<not> truthy_string (appliedRuleText rule) \<longrightarrow>
      appliedRuleTexts (addRule res rule filterName) = appliedRuleTexts res)
   \<and> (\<not> truthy_string (originalRuleText rule) \<longrightarrow>
      originalRuleTexts (addRule res rule filterName) = originalRuleTexts res)
   \<and> length (appliedRuleTexts
        (addRuleGroup getFilterName filtersMetadata emptyRulesData (Some rs)))
      = length (filter (\<lambda>rule. truthy_string (appliedRuleText rule)) rs)
   \<and> length (originalRuleTexts
        (addRuleGroup getFilterName filtersMetadata emptyRulesData (Some rs)))
      = length (filter (\<lambda>rule. truthy_string (originalRuleText rule)) rs)
   \<and> renderControlButtons ids getStatusMode store event \<noteq> []
   \<and> (addedRuleState store \<noteq> Some Block \<and> addedRuleState store \<noteq> Some Unblock
      \<and> requestRule event = None \<longrightarrow>
      hd (renderControlButtons ids getStatusMode store event)
        = renderButton store (BUTTON_MAP event BLOCK))"
proof (intro conjI impI)
  show "getRulesData_raising ids (\<lambda>fid md. Inr (getFilterName fid md)) (runtimeEvent event)
          filtersMetadata
        = Inr (getRulesData ids getFilterName event filtersMetadata)"
    by (rule getRulesData_typed)
next
  show "renderControlButtons_raising ids (\<lambda>event. Inr (getStatusMode event)) store event
        = Inr (renderControlButtons ids getStatusMode store event)"
    by (rule renderControlButtons_typed)
next
  assume "\<not> truthy_string (appliedRuleText rule)"
  then show "appliedRuleTexts (addRule res rule filterName) = appliedRuleTexts res"
    by (cases "appliedRuleText rule") (simp_all add: addRule_applied)
next
  assume "\<not> truthy_string (originalRuleText rule)"
  then show "originalRuleTexts (addRule res rule filterName) = originalRuleTexts res"
    by (cases "originalRuleText rule") (simp_all add: addRule_original)
next
  show "length (appliedRuleTexts
          (addRuleGroup getFilterName filtersMetadata emptyRulesData (Some rs)))
        = length (filter (\<lambda>rule. truthy_string (appliedRuleText rule)) rs)"
    by (rule addRuleGroup_applied_length)
next
  show "length (originalRuleTexts
          (addRuleGroup getFilterName filtersMetadata emptyRulesData (Some rs)))
        = length (filter (\<lambda>rule. truthy_string (originalRuleText rule)) rs)"
    by (rule addRuleGroup_original_length)
next
  show "renderControlButtons ids getStatusMode store event \<noteq> []"
    by (rule renderControlButtons_nonempty)
next
  assume "addedRuleState store \<noteq> Some Block \<and> addedRuleState store \<noteq> Some Unblock
          \<and> requestRule event = None"
  then show "hd (renderControlButtons ids getStatusMode store event)
             = renderButton store (BUTTON_MAP event BLOCK)"
    by (simp add: renderControlButtons_def del: BUTTON_MAP.simps)
qed

text \<open>
  The theorem at a group of a converted rule and a rule with no text, and at an event
  with no request rule.
\<close>

theorem resolvers_never_raise_witness:
  "getRulesData_raising exampleIds (\<lambda>fid md. Inr (lookupFilterName fid md))
     (runtimeEvent (noEvent\<lparr>replaceRules := Some [convertedRule, textlessRule]\<rparr>))
     (Some exampleMetadata)
   = Inr \<lparr>appliedRuleTexts = [''||t.example^$replace=/a/b/ (Tracking Protection)''],
          originalRuleTexts = [''t.example$$replace (Tracking Protection)'']\<rparr>
   \<and> renderControlButtons_raising exampleIds (\<lambda>event. Inr (alwaysRegular event)) idleStore
       noEvent
     = Inr [renderButton idleStore (BUTTON_MAP noEvent BLOCK)]
   \<and> appliedRuleTexts (addRule emptyRulesData textlessRule (Some ''Base filter'')) = []
   \<and> originalRuleTexts (addRule emptyRulesData textlessRule (Some ''Base filter'')) = []
   \<and> hd (renderControlButtons exampleIds alwaysRegular idleStore noEvent)
     = renderButton idleStore (BUTTON_MAP noEvent BLOCK)"
proof -
  let ?group = "noEvent\<lparr>replaceRules := Some [convertedRule, textlessRule]\<rparr>"
  have texts: "getRulesData exampleIds lookupFilterName ?group (Some exampleMetadata)
               = \<lparr>appliedRuleTexts = [''||t.example^$replace=/a/b/ (Tracking Protection)''],
                  originalRuleTexts = [''t.example$$replace (Tracking Protection)'']\<rparr>"
    by (simp add: getRulesData_def noEvent_def addRuleGroup_def addRule_def emptyRulesData_def
          withFilterName_def lookupFilterName_def exampleMetadata_def convertedRule_def
          textlessRule_def blockingRule_def)
  have buttons: "renderControlButtons exampleIds alwaysRegular idleStore noEvent
                 = [renderButton idleStore (BUTTON_MAP noEvent BLOCK)]"
    by (simp add: renderControlButtons_def idleStore_def noEvent_def showPreviewButton_def
          del: BUTTON_MAP.simps)
  show ?thesis
    using resolvers_never_raise
            [where rule = textlessRule and res = emptyRulesData
               and filterName = "Some ''Base filter''" and getFilterName = lookupFilterName
               and filtersMetadata = "Some exampleMetadata" and rs = "[textlessRule]"
               and ids = exampleIds and getStatusMode = alwaysRegular and store = idleStore
               and event = noEvent]
          resolvers_never_raise
            [where rule = textlessRule and res = emptyRulesData
               and filterName = "Some ''Base filter''" and getFilterName = lookupFilterName
               and filtersMetadata = "Some exampleMetadata" and rs = "[textlessRule]"
               and ids = exampleIds and getStatusMode = alwaysRegular and store = idleStore
               and event = ?group, THEN conjunct1]
          texts buttons
    by (simp add: textlessRule_def blockingRule_def emptyRulesData_def idleStore_def
          noEvent_def del: BUTTON_MAP.simps)
qed

section \<open>Properties of the badge\<close>

lemma decimal_digit: "n < 10 \<Longrightarrow> decimal n = [of_nat (48 + n)]"
  by (subst decimal.simps) simp

lemma decimal_two_digits:
  "10 \<le> n \<Longrightarrow> n < 100 \<Longrightarrow> decimal n = [of_nat (48 + n div 10), of_nat (48 + n mod 10)]"
  by (subst decimal.simps) (simp add: decimal_digit del: decimal.simps)

lemma String_number_two_digits:
  assumes "0 \<le> n" and "n \<le> 99"
  shows "String_number n
         = (if n < 10 then [word_of_int (48 + n)]
            else [word_of_int (48 + n div 10), word_of_int (48 + n mod 10)])"
proof -
  have conv: "int (nat n div 10) = n div 10" "int (nat n mod 10) = n mod 10" "int (nat n) = n"
    using assms by (simp_all add: zdiv_int zmod_int)
  have w: "(of_nat k :: 16 word) = word_of_int (int k)" for k
    by simp
  show ?thesis
  proof (cases "n < 10")
    case True
    with assms have "String_number n = [of_nat (48 + nat n)]"
      by (simp add: String_number_def decimal_digit del: decimal.simps)
    also have "\<dots> = [word_of_int (48 + n)]"
      unfolding w using conv by (simp del: decimal.simps)
    finally show ?thesis using True by (simp del: decimal.simps)
  next
    case False
    with assms have "String_number n
        = [of_nat (48 + nat n div 10), of_nat (48 + nat n mod 10)]"
      by (simp add: String_number_def decimal_two_digits del: decimal.simps)
    also have "\<dots> = [word_of_int (48 + n div 10), word_of_int (48 + n mod 10)]"
      unfolding w using conv by (simp del: decimal.simps)
    finally show ?thesis using False by (simp del: decimal.simps)
  qed
qed

text \<open>With no notification the badge is the one computed from the blocked count.\<close>

lemma badge_without_notification_let:
  assumes "getCurrentNotification env = Inr None"
  shows "badge (updateTabIcon env tabId frameData)
   = (let disabled = (documentAllowlisted frameData \<or> applicationFilteringDisabled frameData);
          blocked =
            (if \<not> disabled \<and> \<not> disableShowPageStats env then totalBlockedTab frameData
             else 0) in 
            (if blocked = 0 then []
             else if blocked > 99 then [0x221E]
             else String_number blocked))"
  unfolding updateTabIcon_def assms
  apply (simp only: Let_def sum.case option.case)
  apply (simp only: IconUpdate.select_convs)
  done

lemma badge_without_notification:
  assumes "getCurrentNotification env = Inr None"
  shows "badge (updateTabIcon env tabId frameData)
   = (if documentAllowlisted frameData \<or> applicationFilteringDisabled frameData
         \<or> disableShowPageStats env \<or> totalBlockedTab frameData = 0
      then []
      else if totalBlockedTab frameData > 99 then [0x221E]
      else String_number (totalBlockedTab frameData))"
proof -
  have blocked:
    "(if \<not> (documentAllowlisted frameData \<or> applicationFilteringDisabled frameData)
         \<and> \<not> disableShowPageStats env then totalBlockedTab frameData else 0)
     = (if documentAllowlisted frameData \<or> applicationFilteringDisabled frameData
           \<or> disableShowPageStats env then 0 else totalBlockedTab frameData)"
    by auto
  show ?thesis
    unfolding badge_without_notification_let[OF assms] Let_def blocked
    by (auto simp del: decimal.simps)
qed

lemma browserActionCalls_badge:
  "SetBadgeText api t x \<in> set (browserActionCalls env tabId icon1 badge1 badgeColor1)
   \<or> SetBadgeBackgroundColor api t y \<in> set (browserActionCalls env tabId icon1 badge1 badgeColor1)
   \<Longrightarrow> badge1 \<noteq> []"
  by (auto simp: browserActionCalls_def Let_def split: sum.splits option.splits if_splits)

lemma calls_of_updateTabIcon:
  "calls (updateTabIcon env tabId frameData)
   = (case getCurrentNotification env of
        Inl e \<Rightarrow> [LoggerInfo e]
      | Inr notification \<Rightarrow>
          browserActionCalls env tabId (icon (updateTabIcon env tabId frameData))
            (badge (updateTabIcon env tabId frameData))
            (badgeColor (updateTabIcon env tabId frameData)))"
proof (cases "getCurrentNotification env")
  case (Inl e)
  show ?thesis
    unfolding updateTabIcon_def Inl
    by (simp only: Let_def sum.case IconUpdate.select_convs)
next
  case (Inr notification)
  show ?thesis
    unfolding updateTabIcon_def Inr
    by (simp only: Let_def sum.case IconUpdate.select_convs)
qed

text \<open>
  Claim C9. When there is no promo notification, the badge text of
  \<open>updateTabIcon\<close> is empty whenever the tab's document is allowlisted, filtering
  is disabled for the application, the display of page statistics is disabled, or
  the tab's blocked count is 0; otherwise it is the single code unit U+221E when the
  blocked count is above 99, and \<^verbatim>\<open>String\<close> of the blocked count in every other
  case, which for a count from 1 to 99 is its one or two decimal digits. Whatever
  the notification, \<^verbatim>\<open>setBadgeText\<close> and \<^verbatim>\<open>setBadgeBackgroundColor\<close> are among
  the calls only when the badge text is not empty.
\<close>

theorem updateTabIcon_badge:
  "(getCurrentNotification env = Inr None \<longrightarrow>
      badge (updateTabIcon env tabId frameData)
      = (if documentAllowlisted frameData \<or> applicationFilteringDisabled frameData
            \<or> disableShowPageStats env \<or> totalBlockedTab frameData = 0
         then []
         else if totalBlockedTab frameData > 99 then [0x221E]
         else String_number (totalBlockedTab frameData)))
   \<and> (1 \<le> n \<and> n \<le> 99 \<longrightarrow>
      String_number n
      = (if n < 10 then [word_of_int (48 + n)]
         else [word_of_int (48 + n div 10), word_of_int (48 + n mod 10)]))
   \<and> (SetBadgeText api t x \<in> set (calls (updateTabIcon env tabId frameData))
      \<or> SetBadgeBackgroundColor api t y \<in> set (calls (updateTabIcon env tabId frameData))
      \<longrightarrow> badge (updateTabIcon env tabId frameData) \<noteq> [])"
proof (intro conjI impI)
  assume "getCurrentNotification env = Inr None"
  then show "badge (updateTabIcon env tabId frameData)
      = (if documentAllowlisted frameData \<or> applicationFilteringDisabled frameData
            \<or> disableShowPageStats env \<or> totalBlockedTab frameData = 0
         then []
         else if totalBlockedTab frameData > 99 then [0x221E]
         else String_number (totalBlockedTab frameData))"
    by (rule badge_without_notification)
next
  assume "1 \<le> n \<and> n \<le> 99"
  then show "String_number n
      = (if n < 10 then [word_of_int (48 + n)]
         else [word_of_int (48 + n div 10), word_of_int (48 + n mod 10)])"
    by (intro String_number_two_digits) simp_all
next
  assume made: "SetBadgeText api t x \<in> set (calls (updateTabIcon env tabId frameData))
      \<or> SetBadgeBackgroundColor api t y \<in> set (calls (updateTabIcon env tabId frameData))"
  show "badge (updateTabIcon env tabId frameData) \<noteq> []"
  proof (cases "getCurrentNotification env")
    case (Inl e)
    then have "calls (updateTabIcon env tabId frameData) = [LoggerInfo e]"
      by (simp only: calls_of_updateTabIcon sum.case)
    with made show ?thesis by simp
  next
    case (Inr notification)
    then have "calls (updateTabIcon env tabId frameData)
               = browserActionCalls env tabId (icon (updateTabIcon env tabId frameData))
                   (badge (updateTabIcon env tabId frameData))
                   (badgeColor (updateTabIcon env tabId frameData))"
      by (subst calls_of_updateTabIcon) (simp only: sum.case)
    with made show ?thesis
      using browserActionCalls_badge by metis
  qed
qed

text \<open>
  The theorem at a tab with 42 blocked requests (the badge is \<open>42\<close> and the three
  calls of the browser action are made), with 150 and on an allowlisted document.
\<close>

theorem updateTabIcon_badge_witness:
  "badge (updateTabIcon exampleEnv 7 exampleFrame) = [0x34, 0x32]
   \<and> badge (updateTabIcon exampleEnv 7 (exampleFrame\<lparr>totalBlockedTab := 150\<rparr>)) = [0x221E]
   \<and> badge (updateTabIcon exampleEnv 7 (exampleFrame\<lparr>documentAllowlisted := True\<rparr>)) = []
   \<and> calls (updateTabIcon exampleEnv 7 exampleFrame)
     = [SetIcon action 7 (icon (updateTabIcon exampleEnv 7 exampleFrame)),
        SetBadgeText action 7 [0x34, 0x32],
        SetBadgeBackgroundColor action 7 (badgeColor (updateTabIcon exampleEnv 7 exampleFrame))]"
proof -
  have none: "getCurrentNotification exampleEnv = Inr None"
    by (simp add: exampleEnv_def)
  have digits: "String_number 42 = [0x34, 0x32]"
    using updateTabIcon_badge[where n = 42, THEN conjunct2, THEN conjunct1] by simp
  have a: "badge (updateTabIcon exampleEnv 7 exampleFrame) = [0x34, 0x32]"
    using updateTabIcon_badge[where env = exampleEnv and tabId = 7 and frameData = exampleFrame,
        THEN conjunct1] none digits
    by (simp add: exampleFrame_def exampleEnv_def)
  have b: "badge (updateTabIcon exampleEnv 7 (exampleFrame\<lparr>totalBlockedTab := 150\<rparr>)) = [0x221E]"
    using updateTabIcon_badge[where env = exampleEnv and tabId = 7
        and frameData = "exampleFrame\<lparr>totalBlockedTab := 150\<rparr>", THEN conjunct1] none
    by (simp add: exampleFrame_def exampleEnv_def)
  have c: "badge (updateTabIcon exampleEnv 7 (exampleFrame\<lparr>documentAllowlisted := True\<rparr>)) = []"
    using updateTabIcon_badge[where env = exampleEnv and tabId = 7
        and frameData = "exampleFrame\<lparr>documentAllowlisted := True\<rparr>", THEN conjunct1] none
    by (simp add: exampleFrame_def)
  have d: "calls (updateTabIcon exampleEnv 7 exampleFrame)
     = [SetIcon action 7 (icon (updateTabIcon exampleEnv 7 exampleFrame)),
        SetBadgeText action 7 [0x34, 0x32],
        SetBadgeBackgroundColor action 7 (badgeColor (updateTabIcon exampleEnv 7 exampleFrame))]"
    by (subst calls_of_updateTabIcon) (simp add: none a browserActionCalls_def, simp add: exampleEnv_def)
  from a b c d show ?thesis by simp
qed

end
